theory Spec2Isabelle
  imports Main "HOL-Library.AList"
begin

section \<open>Python values and exceptions\<close>

text \<open>
  The notebook is Python. An exception is a value of type \<open>error\<close>; a computation that
  may raise returns \<open>error + 'a\<close> with \<open>Inl\<close> for the raised exception.
  \<open>Raised name\<close> stands for any exception raised inside a library call
  (generation, scoring, optimisation), which the notebook does not define.
\<close>

datatype error = IndexError | KeyError | Raised string

text \<open>
  A Python \<open>dict\<close> is an association list in insertion order; \<open>d[key]\<close> raises
  \<open>KeyError\<close> when the key is absent. \<open>dict(pairs)\<close> inserts the pairs one after the
  other: a key seen again keeps its place and takes the new value.
\<close>

type_synonym ('k, 'v) pydict = "('k \<times> 'v) list"

definition getitem :: "('k, 'v) pydict \<Rightarrow> 'k \<Rightarrow> error + 'v" where
  "getitem d key = (case map_of d key of None \<Rightarrow> Inl KeyError | Some v \<Rightarrow> Inr v)"

definition keys :: "('k, 'v) pydict \<Rightarrow> 'k list" where
  "keys d = map fst d"

definition dict :: "('k \<times> 'v) list \<Rightarrow> ('k, 'v) pydict" where
  "dict pairs = foldl (\<lambda>d (k, v). AList.update k v d) [] pairs"

section \<open>The batch collator\<close>

text \<open>
  \<^verbatim>\<open>
  def collator(data):
      return dict((key, [d[key] for d in data]) for key in data[0])
  \<close>
  \<open>column key data\<close> is the inner comprehension \<open>[d[key] for d in data]\<close>,
  \<open>columns ks data\<close> the generator over the keys of the first record, consumed by \<open>dict\<close>.
  \<open>data[0]\<close> raises \<open>IndexError\<close> on the empty list.
\<close>

fun column :: "'k \<Rightarrow> ('k, 'v) pydict list \<Rightarrow> error + 'v list" where
  "column key [] = Inr []"
| "column key (d # ds) =
     (case getitem d key of
        Inl e \<Rightarrow> Inl e
      | Inr v \<Rightarrow> (case column key ds of Inl e \<Rightarrow> Inl e | Inr vs \<Rightarrow> Inr (v # vs)))"

fun columns :: "'k list \<Rightarrow> ('k, 'v) pydict list \<Rightarrow> error + ('k \<times> 'v list) list" where
  "columns [] data = Inr []"
| "columns (key # ks) data =
     (case column key data of
        Inl e \<Rightarrow> Inl e
      | Inr vs \<Rightarrow> (case columns ks data of Inl e \<Rightarrow> Inl e | Inr ps \<Rightarrow> Inr ((key, vs) # ps)))"

definition collator :: "('k, 'v) pydict list \<Rightarrow> error + ('k, 'v list) pydict" where
  "collator data =
     (case data of
        [] \<Rightarrow> Inl IndexError
      | d0 # _ \<Rightarrow> (case columns (keys d0) data of Inl e \<Rightarrow> Inl e | Inr ps \<Rightarrow> Inr (dict ps)))"

section \<open>Tensors, strings, slices and indexing\<close>

text \<open>
  A one-dimensional tensor of token ids is a list of tokens. A Python \<open>str\<close> is a list
  of code points, so that \<open>len\<close> is \<open>length\<close> and \<open>+\<close> is \<open>@\<close>. Scores are
  floating-point numbers that the notebook only moves around; their type is a parameter.
\<close>

type_synonym token = nat
type_synonym tensor = "token list"
type_synonym codepoint = nat
type_synonym str = "codepoint list"

definition slice_from :: "int \<Rightarrow> 'a list \<Rightarrow> 'a list" where
  \<comment> \<open>\<open>xs[i:]\<close>: a negative start counts from the end and is clamped at the front.\<close>
  "slice_from i xs =
     (let n = int (length xs); start = (if i < 0 then max 0 (n + i) else min i n)
      in drop (nat start) xs)"

definition slice_to :: "int \<Rightarrow> 'a list \<Rightarrow> 'a list" where
  \<comment> \<open>\<open>xs[:j]\<close>.\<close>
  "slice_to j xs =
     (let n = int (length xs); stop = (if j < 0 then max 0 (n + j) else min j n)
      in take (nat stop) xs)"

definition list_getitem :: "'a list \<Rightarrow> int \<Rightarrow> error + 'a" where
  \<comment> \<open>\<open>xs[i]\<close>: an index from \<open>-len(xs)\<close> to \<open>-1\<close> counts from the end; out of
      range it raises \<open>IndexError\<close>.\<close>
  "list_getitem xs i =
     (if 0 \<le> i \<and> i < int (length xs) then Inr (xs ! nat i)
      else if i < 0 \<and> - int (length xs) \<le> i then Inr (xs ! nat (int (length xs) + i))
      else Inl IndexError)"

definition py_range :: "nat \<Rightarrow> int list" where
  \<comment> \<open>\<open>range(n)\<close>.\<close>
  "py_range n = map int [0..<n]"

section \<open>The world outside the notebook\<close>

text \<open>
  Models, tokenizer, reward pipeline, optimiser, dataset loader and random sampling are
  library code. Each is a parameter: a function of the library's hidden state \<open>'w\<close>
  (weights, random generators) that returns a value or an exception and the next hidden
  state. The notebook's own state is \<open>world\<close>: the hidden state and a trace that records,
  at the moment of the call, every submission to the reward pipeline and every invocation
  of the optimisation step.
\<close>

datatype 's event =
    is_Scored: Scored "str list"
  | is_Stepped: Stepped "tensor list" "tensor list" "'s list"

record ('w, 's) world =
  ext :: 'w
  trace :: "'s event list"

definition call :: "('w \<Rightarrow> 'r \<times> 'w) \<Rightarrow> ('w, 's) world \<Rightarrow> 'r \<times> ('w, 's) world" where
  "call f w = (case f (ext w) of (r, x) \<Rightarrow> (r, w\<lparr>ext := x\<rparr>))"

definition record_event :: "'s event \<Rightarrow> ('w, 's) world \<Rightarrow> ('w, 's) world" where
  "record_event ev w = w\<lparr>trace := trace w @ [ev]\<rparr>"

record 's label_score =
  label :: string
  score :: 's

record row =
  review :: str
  label_id :: int

record example = row +
  input_ids :: tensor
  query :: str

record batch =
  input_ids :: "tensor list"
  query :: "str list"

record rbatch = batch +
  response :: "str list"

record 's game_data =
  query :: "str list"
  response_before :: "str list"
  response_after :: "str list"
  rewards_before :: "'s list"
  rewards_after :: "'s list"

record ('w, 's, 't) env =
  load_dataset :: "string \<Rightarrow> 'w \<Rightarrow> (error + row list) \<times> 'w"
  length_sampler :: "int \<Rightarrow> int \<Rightarrow> 'w \<Rightarrow> int \<times> 'w"
  tok_encode :: "str \<Rightarrow> tensor"
  tok_decode :: "tensor \<Rightarrow> str"
  ppo_generate :: "tensor \<Rightarrow> int \<Rightarrow> 'w \<Rightarrow> (error + tensor) \<times> 'w"
  ref_generate :: "tensor \<Rightarrow> int \<Rightarrow> 'w \<Rightarrow> (error + tensor) \<times> 'w"
  model_generate :: "tensor \<Rightarrow> int \<Rightarrow> 'w \<Rightarrow> (error + tensor) \<times> 'w"
  sentiment_pipe :: "str list \<Rightarrow> 'w \<Rightarrow> (error + 's label_score list list) \<times> 'w"
  ppo_step :: "tensor list \<Rightarrow> tensor list \<Rightarrow> 's list \<Rightarrow> 'w \<Rightarrow> (error + 't) \<times> 'w"
  log_stats :: "'t \<Rightarrow> rbatch \<Rightarrow> 's list \<Rightarrow> 'w \<Rightarrow> (error + unit) \<times> 'w"
  df_sample :: "example list \<Rightarrow> nat \<Rightarrow> 'w \<Rightarrow> (error + example list) \<times> 'w"

section \<open>The dataset builder\<close>

text \<open>
  \<^verbatim>\<open>
  ds = load_dataset(dataset_name, split="train")
  ds = ds.rename_columns({"text": "review"})
  ds = ds.filter(lambda x: len(x["review"]) > 200, batched=False)
  input_size = LengthSampler(input_min_text_length, input_max_text_length)
  def tokenize(sample):
      sample["input_ids"] = tokenizer.encode(sample["review"])[: input_size()]
      sample["query"] = tokenizer.decode(sample["input_ids"])
      return sample
  ds = ds.map(tokenize, batched=False)
  \<close>
  The rows are taken after the renaming of the column \<open>text\<close> to \<open>review\<close>; the
  column \<open>label\<close> is the field \<open>label_id\<close>. Loading the tokenizer and setting the
  output format are library calls without effect on the rows. \<open>input_size()\<close> draws a
  length from the library's random generator, once per row and in row order.
\<close>

definition tokenize ::
  "('w, 's, 't) env \<Rightarrow> int \<Rightarrow> int \<Rightarrow> row \<Rightarrow> ('w, 's) world \<Rightarrow> example \<times> ('w, 's) world" where
  "tokenize env lo hi sample w =
     (case call (length_sampler env lo hi) w of
        (n, w1) \<Rightarrow>
          (let ids = slice_to n (tok_encode env (review sample))
           in (row.extend sample (example.fields ids (tok_decode env ids)), w1)))"

fun map_tokenize ::
  "('w, 's, 't) env \<Rightarrow> int \<Rightarrow> int \<Rightarrow> row list \<Rightarrow> ('w, 's) world \<Rightarrow> example list \<times> ('w, 's) world"
where
  "map_tokenize env lo hi [] w = ([], w)"
| "map_tokenize env lo hi (sample # rest) w =
     (case tokenize env lo hi sample w of
        (x, w1) \<Rightarrow> (case map_tokenize env lo hi rest w1 of (xs, w2) \<Rightarrow> (x # xs, w2)))"

definition build_dataset ::
  "('w, 's, 't) env \<Rightarrow> string \<Rightarrow> int \<Rightarrow> int \<Rightarrow> ('w, 's) world
     \<Rightarrow> (error + example list) \<times> ('w, 's) world" where
  "build_dataset env dataset_name input_min_text_length input_max_text_length w =
     (case call (load_dataset env dataset_name) w of
        (Inl e, w1) \<Rightarrow> (Inl e, w1)
      | (Inr ds, w1) \<Rightarrow>
          (let ds' = filter (\<lambda>x. length (review x) > 200) ds
           in case map_tokenize env input_min_text_length input_max_text_length ds' w1 of
                (exs, w2) \<Rightarrow> (Inr exs, w2)))"

section \<open>Scoring\<close>

text \<open>
  \<^verbatim>\<open>
  texts = [q + r for q, r in zip(batch["query"], batch["response"])]
  pipe_outputs = sentiment_pipe(texts, **sent_kwargs)
  rewards = [torch.tensor(output[1]["score"]) for output in pipe_outputs]
  \<close>
  The evaluation cell has the same three steps, without \<open>torch.tensor\<close>, which only
  wraps the number. An element of a pipeline output is a dictionary with the keys
  \<open>label\<close> and \<open>score\<close>; it is a record here.
\<close>

definition concat_texts :: "str list \<Rightarrow> str list \<Rightarrow> str list" where
  "concat_texts qs rs = map (\<lambda>(q, r). q @ r) (zip qs rs)"

definition positive_score :: "'s label_score list \<Rightarrow> error + 's" where
  \<comment> \<open>\<open>output[1]["score"]\<close>\<close>
  "positive_score output =
     (case list_getitem output 1 of Inl e \<Rightarrow> Inl e | Inr d \<Rightarrow> Inr (score d))"

fun positive_scores :: "'s label_score list list \<Rightarrow> error + 's list" where
  "positive_scores [] = Inr []"
| "positive_scores (output # rest) =
     (case positive_score output of
        Inl e \<Rightarrow> Inl e
      | Inr s \<Rightarrow> (case positive_scores rest of Inl e \<Rightarrow> Inl e | Inr ss \<Rightarrow> Inr (s # ss)))"

definition score_texts ::
  "('w, 's, 't) env \<Rightarrow> str list \<Rightarrow> ('w, 's) world \<Rightarrow> (error + 's list) \<times> ('w, 's) world" where
  "score_texts env texts w =
     (case call (sentiment_pipe env texts) (record_event (Scored texts) w) of
        (Inl e, w1) \<Rightarrow> (Inl e, w1)
      | (Inr pipe_outputs, w1) \<Rightarrow>
          (case positive_scores pipe_outputs of
             Inl e \<Rightarrow> (Inl e, w1)
           | Inr rewards \<Rightarrow> (Inr rewards, w1)))"

section \<open>The training loop\<close>

text \<open>
  \<^verbatim>\<open>
  output_min_length = 4
  output_max_length = 16
  output_length_sampler = LengthSampler(output_min_length, output_max_length)

  for epoch, batch in tqdm(enumerate(ppo_trainer.dataloader)):
      query_tensors = batch["input_ids"]
      response_tensors = []
      for query in query_tensors:
          gen_len = output_length_sampler()
          generation_kwargs["max_new_tokens"] = gen_len
          response = ppo_trainer.generate(query, **generation_kwargs)
          response_tensors.append(response.squeeze()[-gen_len:])
      batch["response"] = [tokenizer.decode(r.squeeze()) for r in response_tensors]
      texts = ...; pipe_outputs = ...; rewards = ...
      stats = ppo_trainer.step(query_tensors, response_tensors, rewards)
      ppo_trainer.log_stats(stats, batch, rewards)
  \<close>
  \<open>get_response\<close> is one pass of the inner loop, \<open>get_responses\<close> the inner loop,
  \<open>training_step\<close> one pass of the outer loop and \<open>training_loop\<close> the outer loop over
  the batches that the data loader yields. The generator returns the squeezed,
  one-dimensional tensor. The loop variables \<open>query\<close> and \<open>response\<close> are written \<open>q\<close> and \<open>out\<close>.
\<close>

definition output_min_length :: int where
  "output_min_length = 4"

definition output_max_length :: int where
  "output_max_length = 16"

definition output_length_sampler :: "('w, 's, 't) env \<Rightarrow> ('w, 's) world \<Rightarrow> int \<times> ('w, 's) world" where
  "output_length_sampler env = call (length_sampler env output_min_length output_max_length)"

definition get_response ::
  "('w, 's, 't) env \<Rightarrow> tensor \<Rightarrow> ('w, 's) world \<Rightarrow> (error + tensor) \<times> ('w, 's) world" where
  "get_response env q w =
     (case output_length_sampler env w of
        (gen_len, w1) \<Rightarrow>
          (case call (ppo_generate env q gen_len) w1 of
             (Inl e, w2) \<Rightarrow> (Inl e, w2)
           | (Inr out, w2) \<Rightarrow> (Inr (slice_from (- gen_len) out), w2)))"




section \<open>The evaluation cell\<close>

text \<open>
  \<^verbatim>\<open>
  bs = 16
  game_data = dict()
  df_batch = dataset[:].sample(bs)
  game_data["query"] = df_batch["query"].tolist()
  query_tensors = df_batch["input_ids"].tolist()
  response_tensors_ref, response_tensors = [], []
  for i in range(bs):
      gen_len = output_length_sampler()
      output = ref_model.generate(torch.tensor(query_tensors[i])..., max_new_tokens=gen_len,
                                  **gen_kwargs).squeeze()[-gen_len:]
      response_tensors_ref.append(output)
      output = model.generate(torch.tensor(query_tensors[i])..., max_new_tokens=gen_len,
                              **gen_kwargs).squeeze()[-gen_len:]
      response_tensors.append(output)
  game_data["response (before)"] = [tokenizer.decode(response_tensors_ref[i]) for i in range(bs)]
  game_data["response (after)"] = [tokenizer.decode(response_tensors[i]) for i in range(bs)]
  texts = [q + r for q, r in zip(game_data["query"], game_data["response (before)"])]
  game_data["rewards (before)"] = [output[1]["score"] for output in sentiment_pipe(texts, ...)]
  texts = [q + r for q, r in zip(game_data["query"], game_data["response (after)"])]
  game_data["rewards (after)"] = [output[1]["score"] for output in sentiment_pipe(texts, ...)]
  \<close>
  \<open>generate_pair\<close> is one pass of the loop over \<open>range(bs)\<close>, \<open>generate_pairs\<close> the
  loop; it returns the two lists \<open>(response_tensors_ref, response_tensors)\<close>.
\<close>

definition bs :: nat where
  "bs = 16"

definition generate_pair ::
  "('w, 's, 't) env \<Rightarrow> tensor list \<Rightarrow> int \<Rightarrow> ('w, 's) world
     \<Rightarrow> (error + tensor \<times> tensor) \<times> ('w, 's) world" where
  "generate_pair env query_tensors i w =
     (case output_length_sampler env w of
        (gen_len, w1) \<Rightarrow>
          (case list_getitem query_tensors i of
             Inl e \<Rightarrow> (Inl e, w1)
           | Inr q \<Rightarrow>
               (case call (ref_generate env q gen_len) w1 of
                  (Inl e, w2) \<Rightarrow> (Inl e, w2)
                | (Inr out_ref, w2) \<Rightarrow>
                    (case list_getitem query_tensors i of
                       Inl e \<Rightarrow> (Inl e, w2)
                     | Inr q' \<Rightarrow>
                         (case call (model_generate env q' gen_len) w2 of
                            (Inl e, w3) \<Rightarrow> (Inl e, w3)
                          | (Inr out, w3) \<Rightarrow>
                              (Inr (slice_from (- gen_len) out_ref, slice_from (- gen_len) out),
                               w3))))))"

fun generate_pairs ::
  "('w, 's, 't) env \<Rightarrow> tensor list \<Rightarrow> int list \<Rightarrow> ('w, 's) world
     \<Rightarrow> (error + tensor list \<times> tensor list) \<times> ('w, 's) world"
where
  "generate_pairs env query_tensors [] w = (Inr ([], []), w)"
| "generate_pairs env query_tensors (i # rest) w =
     (case generate_pair env query_tensors i w of
        (Inl e, w1) \<Rightarrow> (Inl e, w1)
      | (Inr (r_ref, r), w1) \<Rightarrow>
          (case generate_pairs env query_tensors rest w1 of
             (Inl e, w2) \<Rightarrow> (Inl e, w2)
           | (Inr (rs_ref, rs), w2) \<Rightarrow> (Inr (r_ref # rs_ref, r # rs), w2)))"

fun decode_at :: "('w, 's, 't) env \<Rightarrow> tensor list \<Rightarrow> int list \<Rightarrow> error + str list" where
  \<comment> \<open>\<open>[tokenizer.decode(ts[i]) for i in indices]\<close>\<close>
  "decode_at env ts [] = Inr []"
| "decode_at env ts (i # rest) =
     (case list_getitem ts i of
        Inl e \<Rightarrow> Inl e
      | Inr t \<Rightarrow>
          (case decode_at env ts rest of
             Inl e \<Rightarrow> Inl e
           | Inr ds \<Rightarrow> Inr (tok_decode env t # ds)))"

definition evaluate ::
  "('w, 's, 't) env \<Rightarrow> example list \<Rightarrow> ('w, 's) world
     \<Rightarrow> (error + 's game_data) \<times> ('w, 's) world" where
  "evaluate env dataset w =
     (case call (df_sample env dataset bs) w of
        (Inl e, w0) \<Rightarrow> (Inl e, w0)
      | (Inr df_batch, w0) \<Rightarrow>
          (let queries = map example.query df_batch;
               query_tensors = map example.input_ids df_batch
           in case generate_pairs env query_tensors (py_range bs) w0 of
                (Inl e, w1) \<Rightarrow> (Inl e, w1)
              | (Inr (response_tensors_ref, response_tensors), w1) \<Rightarrow>
                  (case decode_at env response_tensors_ref (py_range bs) of
                     Inl e \<Rightarrow> (Inl e, w1)
                   | Inr decoded_ref \<Rightarrow>
                       (case decode_at env response_tensors (py_range bs) of
                          Inl e \<Rightarrow> (Inl e, w1)
                        | Inr decoded \<Rightarrow>
                            (case score_texts env (concat_texts queries decoded_ref) w1 of
                               (Inl e, w2) \<Rightarrow> (Inl e, w2)
                             | (Inr rb, w2) \<Rightarrow>
                                 (case score_texts env (concat_texts queries decoded) w2 of
                                    (Inl e, w3) \<Rightarrow> (Inl e, w3)
                                  | (Inr ra, w3) \<Rightarrow>
                                      (Inr \<lparr>game_data.query = queries,
                                            response_before = decoded_ref,
                                            response_after = decoded,
                                            rewards_before = rb,
                                            rewards_after = ra\<rparr>, w3)))))))"

section \<open>Sample environments\<close>

text \<open>
  Concrete library behaviours on which the theorems below are instantiated. The hidden
  state counts the library calls; tokens and code points coincide; a score is an integer.
  In \<open>toy_env\<close> every generator returns the prompt followed by \<open>max_new_tokens\<close> new
  tokens. In \<open>eos_env\<close> the policy (through the trainer) and the reference model end
  the sequence at once: they return the prompt followed by the end-of-sequence token
  \<open>50256\<close> alone. In \<open>oom_env\<close> generation raises, in \<open>pipe_down_env\<close> the reward
  pipeline raises.
\<close>

definition toy_corpus :: "row list" where
  "toy_corpus =
     [\<lparr>review = replicate 50 97, label_id = 0\<rparr>,
      \<lparr>review = replicate 250 98, label_id = 1\<rparr>,
      \<lparr>review = replicate 300 99, label_id = 0\<rparr>,
      \<lparr>review = replicate 10 100, label_id = 1\<rparr>,
      \<lparr>review = replicate 220 101, label_id = 1\<rparr>]"

definition edge_corpus :: "row list" where
  "edge_corpus = [\<lparr>review = replicate 200 97, label_id = 1\<rparr>]"

definition toy_pipe :: "str list \<Rightarrow> int label_score list list" where
  "toy_pipe texts =
     map (\<lambda>t. [\<lparr>label = ''NEGATIVE'', score = - int (length t)\<rparr>,
               \<lparr>label = ''POSITIVE'', score = int (length t)\<rparr>]) texts"

definition toy_env :: "(nat, int, unit) env" where
  "toy_env =
     \<lparr>load_dataset = (\<lambda>name x. (Inr toy_corpus, Suc x)),
      length_sampler = (\<lambda>lo hi x. (lo, Suc x)),
      tok_encode = (\<lambda>s. s),
      tok_decode = (\<lambda>t. t),
      ppo_generate = (\<lambda>q n x. (Inr (q @ replicate (nat n) 7), Suc x)),
      ref_generate = (\<lambda>q n x. (Inr (q @ replicate (nat n) 8), Suc x)),
      model_generate = (\<lambda>q n x. (Inr (q @ replicate (nat n) 9), Suc x)),
      sentiment_pipe = (\<lambda>texts x. (Inr (toy_pipe texts), Suc x)),
      ppo_step = (\<lambda>qs rs rewards x. (Inr (), Suc x)),
      log_stats = (\<lambda>stats b rewards x. (Inr (), Suc x)),
      df_sample = (\<lambda>ds n x. (Inr (take n ds), Suc x))\<rparr>"

definition edge_env :: "(nat, int, unit) env" where
  "edge_env = toy_env\<lparr>load_dataset := (\<lambda>name x. (Inr edge_corpus, Suc x))\<rparr>"

definition eos_env :: "(nat, int, unit) env" where
  "eos_env =
     toy_env\<lparr>ppo_generate := (\<lambda>q n x. (Inr (q @ [50256]), Suc x)),
             ref_generate := (\<lambda>q n x. (Inr (q @ [50256]), Suc x))\<rparr>"



definition w0 :: "(nat, int) world" where
  "w0 = \<lparr>ext = 0, trace = []\<rparr>"


definition toy_example :: example where
  "toy_example =
     \<lparr>review = replicate 201 97, label_id = 1,
      example.input_ids = [97, 97], example.query = [97, 97]\<rparr>"

definition toy_dataset :: "example list" where
  "toy_dataset = replicate 16 toy_example"

definition toy_records :: "(string, nat) pydict list" where
  "toy_records =
     [[(''input_ids'', 1), (''query'', 2)],
      [(''query'', 4), (''input_ids'', 3)],
      [(''input_ids'', 5), (''query'', 6), (''label'', 0)]]"

definition ragged_records :: "(string, nat) pydict list" where
  "ragged_records = [[(''input_ids'', 1), (''query'', 2)], [(''input_ids'', 3)]]"

section \<open>Properties of the collator\<close>

lemma column_Inr_iff:
  "(\<exists>vs. column key data = Inr vs) \<longleftrightarrow> (\<forall>d\<in>set data. map_of d key \<noteq> None)"
  by (induction data) (auto simp: getitem_def split: option.splits sum.splits)

lemma column_Inl_KeyError: "column key data = Inl e \<Longrightarrow> e = KeyError"
  by (induction data arbitrary: e) (auto simp: getitem_def split: option.splits sum.splits)

lemma column_values:
  "column key data = Inr vs \<Longrightarrow>
     length vs = length data \<and> (\<forall>i<length data. map_of (data ! i) key = Some (vs ! i))"
proof (induction data arbitrary: vs)
  case Nil
  then show ?case by simp
next
  case (Cons d ds)
  from Cons.prems obtain v ws where v: "map_of d key = Some v" and ws: "column key ds = Inr ws"
    and vs: "vs = v # ws"
    by (auto simp: getitem_def split: option.splits sum.splits)
  from Cons.IH [OF ws] have len: "length ws = length ds"
    and nth: "\<forall>i<length ds. map_of (ds ! i) key = Some (ws ! i)"
    by simp_all
  show ?case
  proof (intro conjI allI impI)
    show "length vs = length (d # ds)" using vs len by simp
  next
    fix i assume "i < length (d # ds)"
    then show "map_of ((d # ds) ! i) key = Some (vs ! i)"
      using v nth vs by (cases i) simp_all
  qed
qed

lemma columns_Inl_KeyError: "columns ks data = Inl e \<Longrightarrow> e = KeyError"
  by (induction ks arbitrary: e) (auto split: sum.splits dest: column_Inl_KeyError)

lemma columns_Inr_iff:
  "(\<exists>ps. columns ks data = Inr ps) \<longleftrightarrow> (\<forall>k\<in>set ks. \<forall>d\<in>set data. map_of d k \<noteq> None)"
proof (induction ks)
  case Nil
  then show ?case by simp
next
  case (Cons k ks)
  show ?case
  proof (cases "column k data")
    case (Inl e)
    with column_Inr_iff [of k data] show ?thesis by auto
  next
    case (Inr vs)
    with column_Inr_iff [of k data] have "\<forall>d\<in>set data. map_of d k \<noteq> None" by blast
    with Inr Cons.IH show ?thesis by (auto split: sum.splits)
  qed
qed

lemma columns_shape:
  "columns ks data = Inr ps \<Longrightarrow>
     map fst ps = ks \<and> (\<forall>(k, vs)\<in>set ps. column k data = Inr vs)"
  by (induction ks arbitrary: ps) (auto split: sum.splits)

lemma map_of_dict_aux:
  "map_of (foldl (\<lambda>d (k, v). AList.update k v d) acc ps) = map_of acc ++ map_of (rev ps)"
proof (induction ps arbitrary: acc)
  case Nil
  then show ?case by simp
next
  case (Cons p ps)
  obtain k v where p: "p = (k, v)" by (cases p)
  show ?case
    by (simp add: Cons.IH p update_conv' map_add_def fun_eq_iff split: option.splits)
qed

lemma map_of_dict: "map_of (dict ps) = map_of (rev ps)"
  by (simp add: dict_def map_of_dict_aux)

lemma dom_dict: "fst ` set (dict ps) = fst ` set ps"
proof -
  have "dom (map_of (dict ps)) = dom (map_of (rev ps))" by (simp add: map_of_dict)
  then show ?thesis by (simp add: dom_map_of_conv_image_fst)
qed

lemma dict_distinct: "distinct (map fst ps) \<Longrightarrow> dict ps = ps"
proof -
  have aux: "distinct (map fst (acc @ ps)) \<Longrightarrow>
      foldl (\<lambda>d (k, v). AList.update k v d) acc ps = acc @ ps" for acc :: "('a \<times> 'b) list"
  proof (induction ps arbitrary: acc)
    case Nil
    then show ?case by simp
  next
    case (Cons p ps)
    obtain k v where p: "p = (k, v)" by (cases p)
    from Cons.prems p have "k \<notin> fst ` set acc" by auto
    then have "AList.update k v acc = acc @ [(k, v)]"
      by (induction acc) auto
    moreover from Cons.prems p have "distinct (map fst ((acc @ [(k, v)]) @ ps))" by simp
    ultimately show ?case using Cons.IH [of "acc @ [(k, v)]"] p by simp
  qed
  assume "distinct (map fst ps)"
  then show ?thesis using aux [of "[]"] by (simp add: dict_def)
qed

text \<open>
  C9. On the empty list the collator raises \<open>IndexError\<close> (from \<open>data[0]\<close>); it returns
  no batch.
\<close>

theorem collator_empty: "collator ([] :: ('k, 'v) pydict list) = Inl IndexError"
  by (simp add: collator_def)

lemma map_of_unique_value:
  assumes "k \<in> fst ` set ps" and "\<forall>(k', v)\<in>set ps. k' = k \<longrightarrow> v = vs"
  shows "map_of ps k = Some vs"
proof -
  from assms(1) obtain v where "map_of ps k = Some v"
    by (metis map_of_eq_None_iff not_None_eq)
  moreover from this have "(k, v) \<in> set ps" by (rule map_of_SomeD)
  ultimately show ?thesis using assms(2) by auto
qed

text \<open>
  C3. For a non-empty list of records in which every record has every key of the first
  one, the collator returns a dictionary whose keys are those of the first record (in
  the same order, the keys of a dictionary being distinct); each key is mapped to the
  list of that field's values, one per record and in input order, unchanged.
\<close>

theorem collator_reshapes:
  assumes nonempty: "data \<noteq> []"
    and uniform: "\<forall>d\<in>set data. set (keys (hd data)) \<subseteq> set (keys d)"
  shows "\<exists>b. collator data = Inr b
           \<and> set (keys b) = set (keys (hd data))
           \<and> (distinct (keys (hd data)) \<longrightarrow> keys b = keys (hd data))
           \<and> (\<forall>k\<in>set (keys (hd data)). \<exists>vs. map_of b k = Some vs
                 \<and> length vs = length data
                 \<and> (\<forall>i<length data. map_of (data ! i) k = Some (vs ! i)))"
proof -
  from nonempty obtain d0 ds where data: "data = d0 # ds" by (cases data) auto
  have "\<forall>k\<in>set (keys d0). \<forall>d\<in>set data. map_of d k \<noteq> None"
  proof (intro ballI)
    fix k d assume "k \<in> set (keys d0)" "d \<in> set data"
    with uniform data have "k \<in> fst ` set d" by (auto simp: keys_def)
    then show "map_of d k \<noteq> None" by (simp add: map_of_eq_None_iff)
  qed
  then obtain ps where ps: "columns (keys d0) data = Inr ps"
    using columns_Inr_iff [of "keys d0" data] by blast
  from columns_shape [OF ps] have fst_ps: "map fst ps = keys d0"
    and cols: "\<forall>(k, vs)\<in>set ps. column k data = Inr vs" by simp_all
  have res: "collator data = Inr (dict ps)"
    using ps data by (simp add: collator_def)
  have keys_eq: "set (keys (dict ps)) = set (keys d0)"
    using dom_dict [of ps] fst_ps by (simp add: keys_def) (metis list.set_map)
  have ordered: "distinct (keys d0) \<longrightarrow> keys (dict ps) = keys d0"
    using dict_distinct [of ps] fst_ps by (auto simp: keys_def)
  have vals: "\<exists>vs. map_of (dict ps) k = Some vs \<and> length vs = length data
                \<and> (\<forall>i<length data. map_of (data ! i) k = Some (vs ! i))"
    if k: "k \<in> set (keys d0)" for k
  proof -
    from k fst_ps obtain vs where in_ps: "(k, vs) \<in> set ps"
      by (metis (no_types, opaque_lifting) fst_conv image_iff list.set_map prod.collapse)
    with cols have col: "column k data = Inr vs" by auto
    have same: "\<forall>(k', v)\<in>set (rev ps). k' = k \<longrightarrow> v = vs"
      using cols col by auto
    from in_ps have "k \<in> fst ` set (rev ps)" by force
    from this same have "map_of (rev ps) k = Some vs" by (rule map_of_unique_value)
    then have "map_of (dict ps) k = Some vs" by (simp add: map_of_dict)
    with column_values [OF col] show ?thesis by blast
  qed
  show ?thesis
    using res keys_eq ordered vals data by (intro exI [of _ "dict ps"]) simp
qed

theorem collator_reshapes_witness:
  "toy_records \<noteq> []
   \<and> (\<exists>b. collator toy_records = Inr b
        \<and> keys b = [''input_ids'', ''query'']
        \<and> map_of b ''input_ids'' = Some [1, 3, 5]
        \<and> map_of b ''query'' = Some [2, 4, 6])"
proof -
  have ne: "toy_records \<noteq> []" by (simp add: toy_records_def)
  have un: "\<forall>d\<in>set toy_records. set (keys (hd toy_records)) \<subseteq> set (keys d)"
    by (simp add: toy_records_def keys_def)
  from collator_reshapes [OF ne un] obtain b where b: "collator toy_records = Inr b"
    and ks: "distinct (keys (hd toy_records)) \<longrightarrow> keys b = keys (hd toy_records)"
    and vs: "\<forall>k\<in>set (keys (hd toy_records)). \<exists>vs. map_of b k = Some vs
                 \<and> length vs = length toy_records
                 \<and> (\<forall>i<length toy_records. map_of (toy_records ! i) k = Some (vs ! i))"
    by blast
  have "collator toy_records = Inr [(''input_ids'', [1, 3, 5]), (''query'', [2, 4, 6])]"
    by (simp add: toy_records_def collator_def keys_def getitem_def dict_def)
  with b have "b = [(''input_ids'', [1, 3, 5]), (''query'', [2, 4, 6])]" by simp
  with ne b show ?thesis by (simp add: keys_def)
qed

text \<open>
  C6. When some record lacks a key of the first record, the collator raises
  (\<open>KeyError\<close>) and returns no batch.
\<close>

theorem collator_missing_key:
  assumes nonempty: "data \<noteq> []"
    and missing: "\<exists>d\<in>set data. \<exists>k\<in>set (keys (hd data)). k \<notin> set (keys d)"
  shows "collator data = Inl KeyError"
proof -
  from nonempty obtain d0 ds where data: "data = d0 # ds" by (cases data) auto
  from missing data obtain d k where "d \<in> set data" "k \<in> set (keys d0)" "map_of d k = None"
    by (auto simp: keys_def map_of_eq_None_iff)
  then have "\<not> (\<exists>ps. columns (keys d0) data = Inr ps)"
    using columns_Inr_iff [of "keys d0" data] by blast
  then obtain e where e: "columns (keys d0) data = Inl e"
    by (cases "columns (keys d0) data") auto
  then have "e = KeyError" by (rule columns_Inl_KeyError)
  with e data show ?thesis by (simp add: collator_def)
qed

theorem collator_missing_key_witness:
  "ragged_records \<noteq> [] \<and> collator ragged_records = Inl KeyError"
proof -
  have ne: "ragged_records \<noteq> []" by (simp add: ragged_records_def)
  have mi: "\<exists>d\<in>set ragged_records. \<exists>k\<in>set (keys (hd ragged_records)). k \<notin> set (keys d)"
    by (simp add: ragged_records_def keys_def)
  from collator_missing_key [OF ne mi] ne show ?thesis by simp
qed

section \<open>Properties of the dataset builder\<close>

lemma call_trace: "call f w = (r, w') \<Longrightarrow> trace w' = trace w"
  by (auto simp: call_def split: prod.splits)

lemma tokenize_row: "tokenize env lo hi sample w = (x, w') \<Longrightarrow> row.truncate x = sample"
  by (auto simp: tokenize_def Let_def row.truncate_def row.extend_def split: prod.splits)

lemma map_tokenize_rows:
  "map_tokenize env lo hi rows w = (exs, w') \<Longrightarrow> map row.truncate exs = rows"
proof (induction rows arbitrary: w exs w')
  case Nil
  then show ?case by simp
next
  case (Cons sample rest)
  from Cons.prems obtain x w1 xs where x: "tokenize env lo hi sample w = (x, w1)"
    and xs: "map_tokenize env lo hi rest w1 = (xs, w')" and exs: "exs = x # xs"
    by (auto split: prod.splits)
  from tokenize_row [OF x] Cons.IH [OF xs] exs show ?case by simp
qed

text \<open>
  C5, as the code has it. When the corpus loads, the built dataset consists of exactly the
  rows whose raw text is longer than 200 code points, in corpus order and with their
  raw fields unchanged: a row is excluded if and only if its raw length is at most 200.
  Every example's raw text is longer than 200, and no shorter text appears.
\<close>

theorem build_dataset_keeps_longer_than_200:
  assumes loaded: "call (load_dataset env dataset_name) w = (Inr ds, w1)"
  shows "\<exists>exs w2. build_dataset env dataset_name lo hi w = (Inr exs, w2)
           \<and> map row.truncate exs = filter (\<lambda>x. 200 < length (review x)) ds
           \<and> (\<forall>x\<in>set exs. 200 < length (review x))
           \<and> (\<forall>r\<in>set ds. r \<in> row.truncate ` set exs \<longleftrightarrow> 200 < length (review r))"
proof -
  let ?kept = "filter (\<lambda>x. 200 < length (review x)) ds"
  obtain exs w2 where run: "map_tokenize env lo hi ?kept w1 = (exs, w2)"
    by (cases "map_tokenize env lo hi ?kept w1")
  have res: "build_dataset env dataset_name lo hi w = (Inr exs, w2)"
    using loaded run by (simp add: build_dataset_def)
  have rows: "map row.truncate exs = ?kept" using run by (rule map_tokenize_rows)
  have set_rows: "row.truncate ` set exs = set ?kept"
    using rows by (metis list.set_map)
  have long: "\<forall>x\<in>set exs. 200 < length (review x)"
  proof
    fix x assume "x \<in> set exs"
    then have "row.truncate x \<in> set ?kept" using set_rows by blast
    then show "200 < length (review x)" by (simp add: row.truncate_def)
  qed
  from res rows long set_rows show ?thesis by auto
qed

theorem build_dataset_keeps_longer_than_200_witness:
  "call (load_dataset toy_env ''imdb'') w0 = (Inr toy_corpus, w0\<lparr>ext := 1\<rparr>)
   \<and> (\<exists>exs w2. build_dataset toy_env ''imdb'' 2 8 w0 = (Inr exs, w2)
         \<and> map (\<lambda>x. length (review x)) exs = [250, 300, 220])"
proof -
  have ld: "call (load_dataset toy_env ''imdb'') w0 = (Inr toy_corpus, w0\<lparr>ext := 1\<rparr>)"
    by (simp add: call_def toy_env_def w0_def)
  from build_dataset_keeps_longer_than_200 [OF ld, of 2 8]
  obtain exs w2 where res: "build_dataset toy_env ''imdb'' 2 8 w0 = (Inr exs, w2)"
    and rows: "map row.truncate exs = filter (\<lambda>x. 200 < length (review x)) toy_corpus"
    by blast
  have "map (\<lambda>x. length (review x)) exs = map (\<lambda>r. length (review r)) (map row.truncate exs)"
    by (simp add: row.truncate_def)
  also have "\<dots> = [250, 300, 220]"
    unfolding rows by (simp add: toy_corpus_def)
  finally have lens: "map (\<lambda>x. length (review x)) exs = [250, 300, 220]" .
  show ?thesis
    by (intro conjI exI [of _ exs] exI [of _ w2]) (rule ld res lens)+
qed

text \<open>
  C5 as stated fails on a text of exactly 200 code points: it is not shorter than 200,
  and the filter \<open>len(x["review"]) > 200\<close> excludes it.
\<close>

theorem build_dataset_drops_length_200:
  "load_dataset edge_env ''imdb'' 0 = (Inr [\<lparr>review = replicate 200 97, label_id = 1\<rparr>], 1)
   \<and> fst (build_dataset edge_env ''imdb'' 2 8 w0) = Inr []
   \<and> \<not> length (replicate 200 (97::nat)) < 200"
  by (simp add: build_dataset_def call_def edge_env_def toy_env_def edge_corpus_def w0_def)

section \<open>Properties of slices and indexing\<close>

lemma slice_from_last:
  "0 < n \<Longrightarrow> slice_from (- n) xs = drop (length xs - nat n) xs"
  by (auto simp: slice_from_def Let_def max_def nat_diff_distrib' intro: arg_cong [where f = "\<lambda>k. drop k xs"])

lemma length_slice_from_last:
  "0 < n \<Longrightarrow> length (slice_from (- n) xs) = min (nat n) (length xs)"
  by (simp add: slice_from_last)

lemma list_getitem_1:
  "list_getitem xs 1 = (if 2 \<le> length xs then Inr (xs ! 1) else Inl IndexError)"
  by (auto simp: list_getitem_def Let_def)

lemma list_getitem_nat:
  "list_getitem xs (int i) = (if i < length xs then Inr (xs ! i) else Inl IndexError)"
  by (simp add: list_getitem_def Let_def)

section \<open>Properties of scoring\<close>

lemma length_concat_texts: "length (concat_texts qs rs) = min (length qs) (length rs)"
  by (simp add: concat_texts_def)

lemma nth_concat_texts:
  "i < length qs \<Longrightarrow> i < length rs \<Longrightarrow> concat_texts qs rs ! i = qs ! i @ rs ! i"
  by (simp add: concat_texts_def)

lemma positive_score_eq:
  "positive_score output = (if 2 \<le> length output then Inr (score (output ! 1)) else Inl IndexError)"
  by (simp add: positive_score_def list_getitem_1)

lemma positive_scores_eq:
  "positive_scores outs =
     (if \<forall>output\<in>set outs. 2 \<le> length output
      then Inr (map (\<lambda>output. score (output ! 1)) outs) else Inl IndexError)"
  by (induction outs) (auto simp: positive_score_eq)


text \<open>
  C4. Whatever the reward pipeline returns for the texts, the rewards extracted from it
  (by the training loop and by the evaluation cell, which both score through
  \<open>score_texts\<close>) are the \<open>score\<close> fields of the elements at index 1 of the
  per-text outputs, in order; an output with fewer than two elements raises
  \<open>IndexError\<close>, and no other index is ever read.
\<close>

theorem reward_is_score_at_index_1:
  assumes "sentiment_pipe env texts (ext w) = (Inr outs, x)"
  shows "score_texts env texts w =
           (if \<forall>output\<in>set outs. 2 \<le> length output
            then Inr (map (\<lambda>output. score (output ! 1)) outs) else Inl IndexError,
            w\<lparr>ext := x, trace := trace w @ [Scored texts]\<rparr>)"
  using assms by (simp add: score_texts_def call_def record_event_def positive_scores_eq)

theorem reward_is_score_at_index_1_witness:
  "sentiment_pipe toy_env [[1, 2, 3]] (ext w0) = (Inr (toy_pipe [[1, 2, 3]]), 1)
   \<and> score_texts toy_env [[1, 2, 3]] w0 = (Inr [3], \<lparr>ext = 1, trace = [Scored [[1, 2, 3]]]\<rparr>)"
proof -
  have p: "sentiment_pipe toy_env [[1, 2, 3]] (ext w0) = (Inr (toy_pipe [[1, 2, 3]]), 1)"
    by (simp add: toy_env_def w0_def)
  from reward_is_score_at_index_1 [OF p] p show ?thesis
    by (simp add: toy_pipe_def w0_def)
qed

lemma score_texts_trace:
  "score_texts env texts w = (res, w') \<Longrightarrow> trace w' = trace w @ [Scored texts]"
  by (auto simp: score_texts_def call_def record_event_def split: prod.splits sum.splits)



section \<open>Properties of the training loop\<close>

lemma output_length_sampler_trace:
  "output_length_sampler env w = (L, w') \<Longrightarrow> trace w' = trace w"
  by (auto simp: output_length_sampler_def dest: call_trace)




text \<open>
  C2, as the code has it. With \<open>L\<close> the drawn response length, in the configured
  range, and \<open>out\<close> the sequence the generator returns (the prompt followed by at
  most \<open>L\<close> new tokens), the trimmed response is the slice of the last \<open>L\<close> elements
  of \<open>out\<close>; it has \<open>min L (length out)\<close> tokens, and exactly \<open>L\<close> when \<open>out\<close> has
  at least \<open>L\<close> tokens.
\<close>

theorem response_has_min_length:
  assumes draw: "output_length_sampler env w = (L, w1)"
    and lo: "output_min_length \<le> L" and hi: "L < output_max_length"
    and gen: "call (ppo_generate env q L) w1 = (Inr out, w2)"
  shows "get_response env q w = (Inr (drop (length out - nat L) out), w2)
         \<and> length (drop (length out - nat L) out) = min (nat L) (length out)
         \<and> (nat L \<le> length out \<longrightarrow> length (drop (length out - nat L) out) = nat L)"
proof -
  from lo have pos: "0 < L" by (simp add: output_min_length_def)
  have "get_response env q w = (Inr (slice_from (- L) out), w2)"
    using draw gen by (simp add: get_response_def)
  then show ?thesis using slice_from_last [OF pos, of out] by auto
qed

theorem response_has_min_length_witness:
  "output_length_sampler toy_env w0 = (4, w0\<lparr>ext := 1\<rparr>)
   \<and> call (ppo_generate toy_env [1, 2] 4) (w0\<lparr>ext := 1\<rparr>) = (Inr [1, 2, 7, 7, 7, 7], w0\<lparr>ext := 2\<rparr>)
   \<and> get_response toy_env [1, 2] w0 = (Inr [7, 7, 7, 7], w0\<lparr>ext := 2\<rparr>)"
proof -
  have draw: "output_length_sampler toy_env w0 = (4, w0\<lparr>ext := 1\<rparr>)"
    by (simp add: output_length_sampler_def output_min_length_def call_def toy_env_def w0_def)
  have lo: "output_min_length \<le> 4" and hi: "4 < output_max_length"
    by (simp_all add: output_min_length_def output_max_length_def)
  have gen: "call (ppo_generate toy_env [1, 2] 4) (w0\<lparr>ext := 1\<rparr>)
               = (Inr [1, 2, 7, 7, 7, 7], w0\<lparr>ext := 2\<rparr>)"
    by (simp add: call_def toy_env_def w0_def eval_nat_numeral)
  from response_has_min_length [OF draw lo hi gen] draw gen show ?thesis by simp
qed

text \<open>
  C2 as stated fails when generation ends early: for a prompt of two tokens and a drawn
  length of 4, a generator that emits the end-of-sequence token at once returns three
  tokens, and the trimmed response has three tokens (the prompt among them), not four.
\<close>

theorem short_generation_short_response:
  "fst (output_length_sampler eos_env w0) = 4
   \<and> fst (get_response eos_env [1, 2] w0) = Inr [1, 2, 50256]
   \<and> length [1, 2, 50256 :: nat] \<noteq> 4"
  by (simp add: get_response_def output_length_sampler_def output_min_length_def call_def
      eos_env_def toy_env_def w0_def slice_from_def)






section \<open>Properties of the evaluation cell\<close>

lemma generate_pair_trace: "generate_pair env qts i w = (res, w') \<Longrightarrow> trace w' = trace w"
  by (auto simp: generate_pair_def split: prod.splits sum.splits
      dest!: output_length_sampler_trace call_trace)

lemma generate_pair_index:
  "generate_pair env qts i w = (Inr p, w') \<Longrightarrow> \<exists>q. list_getitem qts i = Inr q"
  by (auto simp: generate_pair_def split: prod.splits sum.splits)

lemma generate_pairs_success:
  "generate_pairs env qts is w = (Inr (refs, resps), w') \<Longrightarrow>
     trace w' = trace w \<and> length refs = length is \<and> length resps = length is
     \<and> (\<forall>i\<in>set is. \<exists>q. list_getitem qts i = Inr q)"
proof (induction "is" arbitrary: w refs resps w')
  case Nil
  then show ?case by simp
next
  case (Cons i rest)
  from Cons.prems obtain r_ref r w1 rs_ref rs
    where one: "generate_pair env qts i w = (Inr (r_ref, r), w1)"
      and more: "generate_pairs env qts rest w1 = (Inr (rs_ref, rs), w')"
      and refs: "refs = r_ref # rs_ref" and resps: "resps = r # rs"
    by (auto split: prod.splits sum.splits)
  from generate_pair_trace [OF one] generate_pair_index [OF one] Cons.IH [OF more] refs resps
  show ?case by simp
qed

lemma decode_at_length: "decode_at env ts is = Inr ds \<Longrightarrow> length ds = length is"
  by (induction "is" arbitrary: ds) (auto split: sum.splits)

lemma length_py_range: "length (py_range n) = n"
  by (simp add: py_range_def)

lemma py_range_in_bounds:
  assumes "\<forall>i\<in>set (py_range n). \<exists>q. list_getitem xs i = Inr q"
  shows "n \<le> length xs"
proof (cases n)
  case 0
  then show ?thesis by simp
next
  case (Suc m)
  then have "int m \<in> set (py_range n)" by (simp add: py_range_def)
  with assms obtain q where "list_getitem xs (int m) = Inr q" by blast
  then have "m < length xs" by (simp add: list_getitem_nat split: if_splits)
  with Suc show ?thesis by simp
qed

lemma evaluate_success:
  assumes "evaluate env dataset w = (Inr gd, w')"
  shows "trace w' = trace w @ [Scored (concat_texts (game_data.query gd) (response_before gd)),
                                Scored (concat_texts (game_data.query gd) (response_after gd))]
         \<and> length (response_before gd) = bs \<and> length (response_after gd) = bs
         \<and> bs \<le> length (game_data.query gd)"
proof -
  from assms obtain df_batch wa where sample: "call (df_sample env dataset bs) w = (Inr df_batch, wa)"
    by (auto simp: evaluate_def split: prod.splits sum.splits)
  let ?queries = "map example.query df_batch"
  let ?qts = "map example.input_ids df_batch"
  from assms sample obtain refs resps wb
    where gen: "generate_pairs env ?qts (py_range bs) wa = (Inr (refs, resps), wb)"
    by (auto simp: evaluate_def Let_def split: prod.splits sum.splits)
  from assms sample gen obtain d_ref d wc rb ra
    where dref: "decode_at env refs (py_range bs) = Inr d_ref"
      and d: "decode_at env resps (py_range bs) = Inr d"
      and sb: "score_texts env (concat_texts ?queries d_ref) wb = (Inr rb, wc)"
      and sa: "score_texts env (concat_texts ?queries d) wc = (Inr ra, w')"
      and gd: "gd = \<lparr>game_data.query = ?queries, response_before = d_ref, response_after = d,
                      rewards_before = rb, rewards_after = ra\<rparr>"
    by (auto simp: evaluate_def Let_def split: prod.splits sum.splits)
  from generate_pairs_success [OF gen] have tb: "trace wb = trace wa"
    and idx: "\<forall>i\<in>set (py_range bs). \<exists>q. list_getitem ?qts i = Inr q" by simp_all
  from idx have "bs \<le> length ?qts" by (rule py_range_in_bounds)
  then have enough: "bs \<le> length ?queries" by simp
  from call_trace [OF sample] tb score_texts_trace [OF sb] score_texts_trace [OF sa]
  have "trace w' = trace w @ [Scored (concat_texts ?queries d_ref), Scored (concat_texts ?queries d)]"
    by simp
  with decode_at_length [OF dref] decode_at_length [OF d] enough gd show ?thesis
    by (simp add: length_py_range)
qed

text \<open>
  C7. When the evaluation cell completes, the reward pipeline has been called twice: on
  the texts built from the sampled queries and the decoded reference responses, then on
  the texts built from the same queries and the decoded policy responses. For each of the
  \<open>bs\<close> examples the two texts are the same query string followed by the respective
  response; they agree on the query prefix.
\<close>

theorem evaluation_texts_share_prompts:
  assumes "evaluate env dataset w = (Inr gd, w')"
  shows "\<exists>tb ta. trace w' = trace w @ [Scored tb, Scored ta]
           \<and> length tb = bs \<and> length ta = bs
           \<and> (\<forall>i<bs. tb ! i = game_data.query gd ! i @ response_before gd ! i
                    \<and> ta ! i = game_data.query gd ! i @ response_after gd ! i
                    \<and> take (length (game_data.query gd ! i)) (tb ! i)
                        = take (length (game_data.query gd ! i)) (ta ! i))"
proof -
  let ?tb = "concat_texts (game_data.query gd) (response_before gd)"
  let ?ta = "concat_texts (game_data.query gd) (response_after gd)"
  from evaluate_success [OF assms] have tr: "trace w' = trace w @ [Scored ?tb, Scored ?ta]"
    and lb: "length (response_before gd) = bs" and la: "length (response_after gd) = bs"
    and lq: "bs \<le> length (game_data.query gd)" by simp_all
  have len: "length ?tb = bs" "length ?ta = bs"
    using lb la lq by (simp_all add: length_concat_texts)
  have nth: "?tb ! i = game_data.query gd ! i @ response_before gd ! i
           \<and> ?ta ! i = game_data.query gd ! i @ response_after gd ! i" if "i < bs" for i
    using that lb la lq by (simp add: nth_concat_texts)
  have "\<forall>i<bs. ?tb ! i = game_data.query gd ! i @ response_before gd ! i
            \<and> ?ta ! i = game_data.query gd ! i @ response_after gd ! i
            \<and> take (length (game_data.query gd ! i)) (?tb ! i)
                = take (length (game_data.query gd ! i)) (?ta ! i)"
    using nth by simp
  with tr len show ?thesis by blast
qed

lemma replicate_step: "replicate (numeral n) y = y # replicate (pred_numeral n) y"
  using replicate_Suc [of "pred_numeral n" y] by (simp only: numeral_eq_Suc)

lemma py_range_bs: "py_range bs = [0, 1, 2, 3, 4, 5, 6, 7, 8, 9, 10, 11, 12, 13, 14, 15]"
  by (simp add: py_range_def bs_def upt_rec)

theorem evaluation_texts_share_prompts_witness:
  "\<exists>gd w'. evaluate toy_env toy_dataset w0 = (Inr gd, w')
     \<and> game_data.query gd = replicate 16 [97, 97]
     \<and> response_before gd = replicate 16 [8, 8, 8, 8]
     \<and> response_after gd = replicate 16 [9, 9, 9, 9]
     \<and> trace w' = [Scored (replicate 16 [97, 97, 8, 8, 8, 8]),
                    Scored (replicate 16 [97, 97, 9, 9, 9, 9])]"
proof -
  have run: "evaluate toy_env toy_dataset w0 =
      (Inr \<lparr>game_data.query = replicate 16 [97, 97],
            response_before = replicate 16 [8, 8, 8, 8],
            response_after = replicate 16 [9, 9, 9, 9],
            rewards_before = replicate 16 6,
            rewards_after = replicate 16 6\<rparr>,
       \<lparr>ext = 51, trace = [Scored (replicate 16 [97, 97, 8, 8, 8, 8]),
                           Scored (replicate 16 [97, 97, 9, 9, 9, 9])]\<rparr>)"
    unfolding evaluate_def py_range_bs
    by (simp add: generate_pair_def output_length_sampler_def output_min_length_def call_def
        list_getitem_def slice_from_def score_texts_def record_event_def concat_texts_def
        positive_score_def toy_pipe_def toy_env_def toy_dataset_def toy_example_def w0_def
        bs_def replicate_step)
  from evaluation_texts_share_prompts [OF run] run show ?thesis by simp
qed

text \<open>
  C10, as the code has it. In one pass of the evaluation loop the length \<open>L\<close> is drawn
  once; the reference model and the policy model are both called on the i-th query with
  \<open>max_new_tokens = L\<close>, and both returned sequences are cut to their last \<open>L\<close>
  elements. The two responses have \<open>min L n\<close> tokens, \<open>n\<close> being the length of the
  respective returned sequence; they have the same number of tokens, \<open>L\<close>, when both
  returned sequences have at least \<open>L\<close> tokens.
\<close>

theorem pair_shares_drawn_length:
  assumes draw: "output_length_sampler env w = (L, w1)"
    and lo: "output_min_length \<le> L" and hi: "L < output_max_length"
    and q: "list_getitem query_tensors i = Inr q"
    and ref: "call (ref_generate env q L) w1 = (Inr out_ref, w2)"
    and pol: "call (model_generate env q L) w2 = (Inr out, w3)"
  shows "generate_pair env query_tensors i w =
           (Inr (drop (length out_ref - nat L) out_ref, drop (length out - nat L) out), w3)
         \<and> length (drop (length out_ref - nat L) out_ref) = min (nat L) (length out_ref)
         \<and> length (drop (length out - nat L) out) = min (nat L) (length out)
         \<and> (nat L \<le> length out_ref \<and> nat L \<le> length out \<longrightarrow>
              length (drop (length out_ref - nat L) out_ref) = nat L
              \<and> length (drop (length out - nat L) out) = nat L)"
proof -
  from lo have pos: "0 < L" by (simp add: output_min_length_def)
  have "generate_pair env query_tensors i w
          = (Inr (slice_from (- L) out_ref, slice_from (- L) out), w3)"
    using draw q ref pol by (simp add: generate_pair_def)
  then show ?thesis
    using slice_from_last [OF pos, of out_ref] slice_from_last [OF pos, of out] by auto
qed

theorem pair_shares_drawn_length_witness:
  "output_length_sampler toy_env w0 = (4, w0\<lparr>ext := 1\<rparr>)
   \<and> list_getitem [[97, 97]] 0 = Inr [97, 97 :: nat]
   \<and> call (ref_generate toy_env [97, 97] 4) (w0\<lparr>ext := 1\<rparr>)
        = (Inr [97, 97, 8, 8, 8, 8], w0\<lparr>ext := 2\<rparr>)
   \<and> call (model_generate toy_env [97, 97] 4) (w0\<lparr>ext := 2\<rparr>)
        = (Inr [97, 97, 9, 9, 9, 9], w0\<lparr>ext := 3\<rparr>)
   \<and> generate_pair toy_env [[97, 97]] 0 w0 = (Inr ([8, 8, 8, 8], [9, 9, 9, 9]), w0\<lparr>ext := 3\<rparr>)"
proof -
  have draw: "output_length_sampler toy_env w0 = (4, w0\<lparr>ext := 1\<rparr>)"
    by (simp add: output_length_sampler_def output_min_length_def call_def toy_env_def w0_def)
  have lo: "output_min_length \<le> 4" and hi: "4 < output_max_length"
    by (simp_all add: output_min_length_def output_max_length_def)
  have q: "list_getitem [[97, 97]] 0 = Inr [97, 97 :: nat]"
    by (simp add: list_getitem_def)
  have ref: "call (ref_generate toy_env [97, 97] 4) (w0\<lparr>ext := 1\<rparr>)
        = (Inr [97, 97, 8, 8, 8, 8], w0\<lparr>ext := 2\<rparr>)"
    by (simp add: call_def toy_env_def w0_def replicate_step)
  have pol: "call (model_generate toy_env [97, 97] 4) (w0\<lparr>ext := 2\<rparr>)
        = (Inr [97, 97, 9, 9, 9, 9], w0\<lparr>ext := 3\<rparr>)"
    by (simp add: call_def toy_env_def w0_def replicate_step)
  from pair_shares_drawn_length [OF draw lo hi q ref pol] draw q ref pol
  show ?thesis by simp
qed

text \<open>
  C10 as stated fails when one of the two generations ends early. For prompts of two
  tokens and a drawn length of 4, a reference model that emits the end-of-sequence token
  at once gives responses of three tokens, while the policy's responses have four.
\<close>

theorem paired_lengths_differ:
  "map example.input_ids toy_dataset = replicate bs [97, 97]
   \<and> fst (output_length_sampler eos_env w0) = 4
   \<and> fst (generate_pairs eos_env (map example.input_ids toy_dataset) (py_range bs) w0)
       = Inr (replicate bs [97, 97, 50256], replicate bs [9, 9, 9, 9])
   \<and> length [97, 97, 50256 :: nat] \<noteq> length [9, 9, 9, 9 :: nat]"
  unfolding py_range_bs
  by (simp add: generate_pair_def output_length_sampler_def output_min_length_def call_def
      list_getitem_def slice_from_def eos_env_def toy_env_def toy_dataset_def toy_example_def
      w0_def bs_def replicate_step)

end
